theory Spec2Isabelle
  imports Main "HOL-Library.Word" "HOL-Library.Signed_Division"
begin

section \<open>k8s-elector: the elector node (package pkg)\<close>

text \<open>
  A shallow embedding of \<^verbatim>\<open>pkg/elector.go\<close> and \<^verbatim>\<open>pkg/config.go\<close>, in the
  version whose \<^verbatim>\<open>Run\<close> drives the election through \<^verbatim>\<open>runUntilError\<close>.
  The operating system, the Kubernetes client library and the election library are not
  part of the repository: what they return is an input of the model (\<open>os_env\<close>,
  \<open>session_env\<close>), and every call the node makes to them is recorded, in program
  order, in a list of events.
\<close>

subsection \<open>Data model\<close>

text \<open>\<^verbatim>\<open>time.Duration\<close> is an \<^verbatim>\<open>int64\<close> count of nanoseconds.\<close>

type_synonym duration = "64 word"

definition Second :: duration where
  "Second = 1000000000"

text \<open>
  Go's \<^verbatim>\<open>/\<close> on signed integers truncates towards zero. The two divisors the node uses
  are the constants 3 and 6, so neither the division by zero nor the overflow of
  \<^verbatim>\<open>MinInt64 / -1\<close> can occur.
\<close>

definition duration_div :: "duration \<Rightarrow> int \<Rightarrow> duration" where
  "duration_div d k = word_of_int (sint d sdiv k)"

text \<open>
  \<^verbatim>\<open>ElectorConfig\<close>. The field \<open>PodName\<close> is read and written by \<^verbatim>\<open>elector.go\<close>
  (\<^verbatim>\<open>node.config.PodName\<close>, \<^verbatim>\<open>cfg.PodName\<close>).
\<close>

record ElectorConfig =
  Address :: string
  ID :: string
  KubeConfig :: string
  LockType :: string
  Name :: string
  Namespace :: string
  PodName :: string
  TTL :: duration

text \<open>The errors the node can return, each with the message Go would print for it.\<close>

datatype error =
    NoConfig
  | NoClientConfig
  | MissingName
  | Canceled
  | External string

fun error_string :: "error \<Rightarrow> string" where
  "error_string NoConfig = ''no config specified for elector''"
| "error_string NoClientConfig = ''no config specified for the elector''"
| "error_string MissingName =
     ''missing required value: election name was not specified (see '--help' for usage)''"
| "error_string Canceled = ''context canceled''"
| "error_string (External msg) = msg"

text \<open>
  \<^verbatim>\<open>ElectorNode\<close>. \<open>config\<close> is a pointer (\<open>None\<close> is \<^verbatim>\<open>nil\<close>). The context is made by
  \<^verbatim>\<open>context.WithCancel(context.Background())\<close>, so all there is to know about it is
  whether \<^verbatim>\<open>cancel\<close> has been called. The channel \<^verbatim>\<open>quit\<close> belongs to the environment.
\<close>

record ElectorNode =
  config :: "ElectorConfig option"
  cancelled :: bool
  currentLeader :: string
  servingHTTP :: bool

definition NewElectorNode :: "ElectorConfig option \<Rightarrow> ElectorNode" where
  "NewElectorNode cfg =
     \<lparr>config = cfg, cancelled = False, currentLeader = '''', servingHTTP = False\<rparr>"

text \<open>\<^verbatim>\<open>node.cancel()\<close> and \<^verbatim>\<open>node.ctx.Err()\<close>.\<close>

definition cancel :: "ElectorNode \<Rightarrow> ElectorNode" where
  "cancel node = node\<lparr>cancelled := True\<rparr>"

definition ctx_Err :: "ElectorNode \<Rightarrow> error option" where
  "ctx_Err node = (if cancelled node then Some Canceled else None)"

text \<open>The configuration handed to \<^verbatim>\<open>leaderelection.RunOrDie\<close>.\<close>

record LeaderElectionConfig =
  Lock :: "string \<times> string \<times> string \<times> string"
  ElectionName :: string
  ReleaseOnCancel :: bool
  LeaseDuration :: duration
  RenewDeadline :: duration
  RetryPeriod :: duration

record patchLabel =
  Op :: string
  Path :: string
  Value :: string

datatype level = Info | Err | Fatal

text \<open>
  What the node does to the outside world. A \<open>Call\<close> event records that the call was
  made, whatever it then returned.
\<close>

datatype event =
    Logged level string
  | ConfigLogged "ElectorConfig option"
  | SignalListenerSpawned
  | HTTPServerSpawned
  | CallListenAndServe string
  | SessionSpawned
  | CallBuildConfigFromFlags string
  | CallInClusterConfig
  | CallNewForConfig
  | CallResourcelockNew string string string string
  | CallRunOrDie LeaderElectionConfig
  | CallPodsGet string string
  | CallPodsPatch string string "patchLabel list"
  | Slept duration

text \<open>The events that reach the Kubernetes client configuration, the API server or the lock.\<close>

fun is_store_call :: "event \<Rightarrow> bool" where
  "is_store_call (CallBuildConfigFromFlags _) = True"
| "is_store_call CallInClusterConfig = True"
| "is_store_call CallNewForConfig = True"
| "is_store_call (CallResourcelockNew _ _ _ _) = True"
| "is_store_call (CallRunOrDie _) = True"
| "is_store_call (CallPodsGet _ _) = True"
| "is_store_call (CallPodsPatch _ _ _) = True"
| "is_store_call _ = False"

definition EnvPodName :: string where
  "EnvPodName = ''ELECTOR_POD_NAME''"

definition ResourcePathPodLabel :: string where
  "ResourcePathPodLabel = ''/metadata/labels/k8s-elector~1status''"

definition StatusStandby :: string where
  "StatusStandby = ''standby''"

definition StatusLeader :: string where
  "StatusLeader = ''leader''"

subsection \<open>Configuration check\<close>

text \<open>
  The operating system as the node sees it: \<^verbatim>\<open>os.Hostname()\<close> and \<^verbatim>\<open>os.Getenv\<close>,
  read by \<^verbatim>\<open>checkConfig\<close>, and the error with which \<^verbatim>\<open>http.ListenAndServe\<close> comes
  back (\<open>None\<close>: it keeps serving).
\<close>

record os_env =
  Hostname :: "error + string"
  Getenv :: "string \<Rightarrow> string"
  ListenAndServe :: "error option"

text \<open>
  \<^verbatim>\<open>checkConfig\<close>: the events, the node with the defaults filled in, and the error
  (\<open>None\<close> is \<^verbatim>\<open>nil\<close>).
\<close>

definition checkConfig :: "os_env \<Rightarrow> ElectorNode \<Rightarrow> event list \<times> ElectorNode \<times> error option" where
  "checkConfig os node =
     (case config node of
        None \<Rightarrow> ([], node, Some NoConfig)
      | Some c \<Rightarrow>
          if Name c = '''' then ([], node, Some MissingName)
          else
            (case Hostname os of
               Inl err \<Rightarrow> ([], node, Some err)
             | Inr hostname \<Rightarrow>
                 (let val = Getenv os EnvPodName;
                      (ev1, c1) =
                        (if val \<noteq> '''' then ([], c\<lparr>PodName := val\<rparr>)
                         else ([Logged Info (''pod name not specified, using hostname: '' @ hostname)],
                               c\<lparr>PodName := hostname\<rparr>));
                      (ev2, c2) =
                        (if ID c1 = ''''
                         then ([Logged Info (''no ID specified for elector node, using hostname: '' @ hostname)],
                               c1\<lparr>ID := hostname\<rparr>)
                         else ([], c1))
                  in (ev1 @ ev2, node\<lparr>config := Some c2\<rparr>, None))))"

text \<open>\<^verbatim>\<open>IsLeader\<close>.\<close>

definition IsLeader :: "ElectorNode \<Rightarrow> bool" where
  "IsLeader node = (case config node of None \<Rightarrow> False | Some c \<Rightarrow> ID c = currentLeader node)"

subsection \<open>One election session\<close>

text \<open>
  What the Pod API answers during one call of \<^verbatim>\<open>updatePodLabel\<close>: the labels of the Pod
  (or the error of \<^verbatim>\<open>Get\<close>) and the error of \<^verbatim>\<open>Patch\<close>.
\<close>

record pod_api =
  pod_Get :: "error + (string \<times> string) list"
  pod_Patch :: "error option"

definition updatePodLabel :: "pod_api \<Rightarrow> ElectorConfig \<Rightarrow> string \<Rightarrow> event list \<times> error option" where
  "updatePodLabel api cfg v =
     (case pod_Get api of
        Inl err \<Rightarrow> ([CallPodsGet (Namespace cfg) (PodName cfg)], Some err)
      | Inr labels \<Rightarrow>
          (let operation = (if map_of labels ResourcePathPodLabel \<noteq> None then ''replace'' else ''add'');
               payload = [\<lparr>Op = operation, Path = ResourcePathPodLabel, Value = v\<rparr>]
           in ([CallPodsGet (Namespace cfg) (PodName cfg),
                CallPodsPatch (Namespace cfg) (PodName cfg) payload], pod_Patch api)))"

text \<open>
  The callbacks the election library invokes, each with what the Pod API answers while
  the callback runs.
\<close>

datatype callback =
    OnStartedLeading pod_api
  | OnStoppedLeading pod_api
  | OnNewLeader string pod_api

text \<open>The three closures of \<^verbatim>\<open>run\<close>, over the node and its (non-nil) configuration.\<close>

fun callback_step :: "ElectorConfig \<Rightarrow> callback \<Rightarrow> ElectorNode \<Rightarrow> event list \<times> ElectorNode" where
  "callback_step c (OnStartedLeading api) node =
     (let (ev, err) = updatePodLabel api c StatusLeader
      in (Logged Info (''['' @ ID c @ ''] started leading'') # ev @
          (case err of None \<Rightarrow> []
           | Some e \<Rightarrow> [Logged Err (''failed to set leader annotation: '' @ error_string e)]),
          node))"
| "callback_step c (OnStoppedLeading api) node =
     (let (ev, err) = updatePodLabel api c StatusStandby
      in (Logged Info (''['' @ ID c @ ''] stepping down as leader'') # ev @
          (case err of None \<Rightarrow> []
           | Some e \<Rightarrow> [Logged Err (''failed to set standby annotation: '' @ error_string e)]),
          node))"
| "callback_step c (OnNewLeader identity api) node =
     (let node' = node\<lparr>currentLeader := identity\<rparr>
      in if IsLeader node' then ([], node')
         else
           (let (ev, err) = updatePodLabel api c StatusStandby
            in (Logged Info (''new leader elected: '' @ identity) # ev @
                (case err of None \<Rightarrow> []
                 | Some e \<Rightarrow> [Logged Err (''failed to set standby annotation: '' @ error_string e)]),
                node')))"

fun callbacks_run :: "ElectorConfig \<Rightarrow> callback list \<Rightarrow> ElectorNode \<Rightarrow> event list \<times> ElectorNode" where
  "callbacks_run c [] node = ([], node)"
| "callbacks_run c (cb # cbs) node =
     (let (ev1, node1) = callback_step c cb node;
          (ev2, node2) = callbacks_run c cbs node1
      in (ev1 @ ev2, node2))"

text \<open>
  \<^verbatim>\<open>leaderelection.RunOrDie\<close> invokes callbacks and then either returns or panics. It
  panics before any callback when the library refuses the configuration it is given.
\<close>

datatype election_run = Returns "callback list" | Panics "callback list"

text \<open>
  What the libraries answer during one call of \<^verbatim>\<open>run\<close>: the error (\<open>None\<close> is
  \<^verbatim>\<open>nil\<close>) of \<^verbatim>\<open>clientcmd.BuildConfigFromFlags\<close>, \<^verbatim>\<open>rest.InClusterConfig\<close>,
  \<^verbatim>\<open>kubernetes.NewForConfig\<close> and \<^verbatim>\<open>resourcelock.New\<close>, and the course
  \<^verbatim>\<open>leaderelection.RunOrDie\<close> takes on the configuration it is called with.
\<close>

record session_env =
  BuildConfigFromFlags :: "error option"
  InClusterConfig :: "error option"
  NewForConfig :: "error option"
  resourcelock_New :: "error option"
  RunOrDie :: "LeaderElectionConfig \<Rightarrow> election_run"

datatype rest_Config = FromKubeconfig string | InCluster

definition buildClientConfig :: "session_env \<Rightarrow> ElectorNode \<Rightarrow> event list \<times> (error + rest_Config)" where
  "buildClientConfig env node =
     (case config node of
        None \<Rightarrow> ([], Inl NoClientConfig)
      | Some c \<Rightarrow>
          if KubeConfig c \<noteq> '''' then
            ([CallBuildConfigFromFlags (KubeConfig c)],
             case BuildConfigFromFlags env of
               Some err \<Rightarrow> Inl err
             | None \<Rightarrow> Inr (FromKubeconfig (KubeConfig c)))
          else
            ([CallInClusterConfig],
             case InClusterConfig env of
               Some err \<Rightarrow> Inl err
             | None \<Rightarrow> Inr InCluster))"

text \<open>The \<^verbatim>\<open>LeaderElectionConfig\<close> literal of \<^verbatim>\<open>run\<close>, callbacks apart.\<close>

definition electionConfig :: "ElectorConfig \<Rightarrow> LeaderElectionConfig" where
  "electionConfig c =
     \<lparr>Lock = (LockType c, Namespace c, Name c, ID c),
      ElectionName = Namespace c @ ''/'' @ Name c @ ''-'' @ ID c,
      ReleaseOnCancel = True,
      LeaseDuration = TTL c,
      RenewDeadline = duration_div (TTL c) 3,
      RetryPeriod = duration_div (TTL c) 6\<rparr>"

text \<open>
  A call either returns a value or does not return because the process dies in it (a
  panic, or \<^verbatim>\<open>klog.Fatal\<close>).
\<close>

datatype 'a outcome = Returned 'a | Died

text \<open>\<^verbatim>\<open>run\<close>: one session of the election.\<close>

definition run :: "session_env \<Rightarrow> ElectorNode \<Rightarrow> event list \<times> ElectorNode \<times> error option outcome" where
  "run env node =
     (case buildClientConfig env node of
        (ev1, Inl err) \<Rightarrow> (ev1, node, Returned (Some err))
      | (ev1, Inr cfg) \<Rightarrow>
          (case NewForConfig env of
             Some err \<Rightarrow> (ev1 @ [CallNewForConfig], node, Returned (Some err))
           | None \<Rightarrow>
               (case config node of
                  None \<Rightarrow> (ev1 @ [CallNewForConfig], node, Died)
                | Some c \<Rightarrow>
                    (let ev2 = ev1 @ [CallNewForConfig,
                                      CallResourcelockNew (LockType c) (Namespace c) (Name c) (ID c)]
                     in case resourcelock_New env of
                          Some err \<Rightarrow> (ev2, node, Returned (Some err))
                        | None \<Rightarrow>
                            (let ev3 = ev2 @ [CallRunOrDie (electionConfig c)]
                             in case RunOrDie env (electionConfig c) of
                                  Panics cbs \<Rightarrow>
                                    (let (ev4, node') = callbacks_run c cbs node
                                     in (ev3 @ ev4, node', Died))
                                | Returns cbs \<Rightarrow>
                                    (let (ev4, node') = callbacks_run c cbs node
                                     in (ev3 @ ev4, node', Returned None)))))))"

subsection \<open>The supervisor loop\<close>

text \<open>
  \<^verbatim>\<open>listenForSignal\<close>, given the signal it takes from \<^verbatim>\<open>quit\<close>. Its two log lines are
  recorded together, when the signal arrives.
\<close>

definition listenForSignal :: "string \<Rightarrow> ElectorNode \<Rightarrow> event list \<times> ElectorNode" where
  "listenForSignal sig node =
     ([Logged Info ''listening for shutdown signals...'',
       Logged Info (''shutting down: received termination signal '' @ sig)],
      cancel node)"

text \<open>
  One turn of the \<^verbatim>\<open>for\<close> loop of \<^verbatim>\<open>runUntilError\<close>, as the environment shapes it:
  what the session started in this turn meets, the termination signal (if any) that
  \<^verbatim>\<open>listenForSignal\<close> takes before the \<^verbatim>\<open>select\<close> fires, and the case the
  \<^verbatim>\<open>select\<close> takes when both of its channels are ready. The case
  \<^verbatim>\<open>ctx.Done()\<close> is ready only once the context is cancelled.
\<close>

datatype select_case = CtxDone | ErrChan

record iteration =
  session :: session_env
  signal :: "string option"
  pick :: select_case

definition prepend :: "event list \<Rightarrow> event list \<times> 'a \<Rightarrow> event list \<times> 'a" where
  "prepend evs r = (evs @ fst r, snd r)"

text \<open>
  \<^verbatim>\<open>runUntilError\<close>, over the turns the environment describes. The loop has no bound of
  its own: when the described turns are used up and it has not returned, the result is
  \<open>None\<close> (the node is still running).
\<close>

fun runUntilError ::
  "iteration list \<Rightarrow> ElectorNode \<Rightarrow> event list \<times> ElectorNode \<times> error option outcome option" where
  "runUntilError [] node = ([], node, None)"
| "runUntilError (it # its) node =
     (case run (session it) node of
        (ev1, node1, Died) \<Rightarrow> (SessionSpawned # ev1, node1, Some Died)
      | (ev1, node1, Returned err) \<Rightarrow>
          (let (ev2, node2) =
                 (case signal it of
                    None \<Rightarrow> ([], node1)
                  | Some sig \<Rightarrow> listenForSignal sig node1)
           in if cancelled node2 \<and> pick it = CtxDone then
                (SessionSpawned # ev1 @ ev2 @ [Logged Info ''terminating: context cancelled''],
                 node2, Some (Returned (ctx_Err node2)))
              else
                (case err of
                   Some e \<Rightarrow>
                     (SessionSpawned # ev1 @ ev2 @
                        [Logged Info (''terminating: run error  ('' @ error_string e @ '')'')],
                      node2, Some (Returned (Some e)))
                 | None \<Rightarrow>
                     prepend (SessionSpawned # ev1 @ ev2 @
                                [Slept Second, Logged Info ''re-running election''])
                       (runUntilError its node2))))"

subsection \<open>The node\<close>

text \<open>
  \<^verbatim>\<open>serveHTTP\<close>, given the error with which \<^verbatim>\<open>http.ListenAndServe\<close> comes back
  (\<open>None\<close>: it keeps serving, and \<^verbatim>\<open>serveHTTP\<close> does not return). When the server
  cannot be started, \<^verbatim>\<open>klog.Fatalf\<close> ends the process.
\<close>

definition serveHTTP :: "error option \<Rightarrow> ElectorNode \<Rightarrow> event list \<times> ElectorNode \<times> unit outcome option" where
  "serveHTTP listen node =
     (case config node of
        None \<Rightarrow> ([], node, Some Died)
      | Some c \<Rightarrow>
          if Address c = '''' then
            ([Logged Info ''http server will not be started: no address given''], node,
             Some (Returned ()))
          else
            (let ev = [Logged Info (''starting HTTP server on '' @ Address c),
                       CallListenAndServe (Address c)];
                 node' = node\<lparr>servingHTTP := True\<rparr>
             in case listen of
                  None \<Rightarrow> (ev, node', None)
                | Some err \<Rightarrow>
                    (ev @ [Logged Fatal (''failed to start the HTTP server: '' @ error_string err)],
                     node', Some Died)))"

text \<open>
  \<^verbatim>\<open>Run\<close>. The deferred \<^verbatim>\<open>node.cancel()\<close> runs on every return, and not when the
  process dies. The body of \<^verbatim>\<open>ElectorConfig.Log\<close> is one event. Of the two goroutines
  started here, the HTTP server takes its steps at once, where it is started: it sets
  \<^verbatim>\<open>servingHTTP\<close> and serves from then on, or ends the process when it cannot listen.
  What the signal listener does enters through the turns of the loop.
\<close>

definition Run ::
  "os_env \<Rightarrow> iteration list \<Rightarrow> ElectorNode \<Rightarrow> event list \<times> ElectorNode \<times> error option outcome option" where
  "Run os its node =
     (case checkConfig os node of
        (ev1, node1, Some err) \<Rightarrow> (ev1, cancel node1, Some (Returned (Some err)))
      | (ev1, node1, None) \<Rightarrow>
          (let ev2 = ev1 @ [ConfigLogged (config node1), SignalListenerSpawned, HTTPServerSpawned]
           in case serveHTTP (ListenAndServe os) node1 of
                (evh, nodeh, Some Died) \<Rightarrow> (ev2 @ evh, nodeh, Some Died)
              | (evh, nodeh, _) \<Rightarrow>
                  (case runUntilError its nodeh of
                     (ev3, node3, Some (Returned (Some err))) \<Rightarrow>
                       (ev2 @ evh @ ev3, cancel node3, Some (Returned (Some err)))
                   | (ev3, node3, Some (Returned None)) \<Rightarrow>
                       (ev2 @ evh @ ev3 @ [Logged Info ''done''], cancel node3,
                        Some (Returned None))
                   | (ev3, node3, Some Died) \<Rightarrow> (ev2 @ evh @ ev3, node3, Some Died)
                   | (ev3, node3, None) \<Rightarrow> (ev2 @ evh @ ev3, node3, None))))"

subsection \<open>The status endpoint\<close>

text \<open>
  The values the handler puts into its \<^verbatim>\<open>map[string]interface{}\<close> are strings and
  booleans; \<open>JUnsupported\<close> stands for a Go value that \<^verbatim>\<open>json.Marshal\<close> refuses.
  A marshalled object is kept as its list of members rather than as bytes.
\<close>

datatype json = JString string | JBool bool | JUnsupported

definition json_Marshal :: "(string \<times> json) list \<Rightarrow> error + (string \<times> json) list" where
  "json_Marshal m =
     (if JUnsupported \<in> set (map snd m) then Inl (External ''json: unsupported type'')
      else Inr m)"

record http_request =
  Method :: string
  URL :: string
  RemoteAddr :: string

datatype body = JSON "(string \<times> json) list" | Text string

record http_response =
  StatusCode :: nat
  Header :: "(string \<times> string list) list"
  Body :: body

text \<open>
  What the handler reads from outside: \<^verbatim>\<open>time.Now().UTC().Format(time.RFC3339)\<close> and
  the error of \<^verbatim>\<open>res.Write\<close>.
\<close>

record http_env =
  now_utc_rfc3339 :: string
  Write_error :: "error option"

definition StatusOK :: nat where
  "StatusOK = 200"

definition StatusInternalServerError :: nat where
  "StatusInternalServerError = 500"

text \<open>\<^verbatim>\<open>httpLeaderInfo\<close>. With a \<^verbatim>\<open>nil\<close> configuration the handler panics.\<close>

definition httpLeaderInfo ::
  "http_env \<Rightarrow> http_request \<Rightarrow> ElectorNode \<Rightarrow> event list \<times> http_response outcome" where
  "httpLeaderInfo env req node =
     (let ev0 = [Logged Info (''received incoming http request: '' @ Method req @ '' '' @
                              URL req @ '' ('' @ RemoteAddr req @ '')'')]
      in case config node of
           None \<Rightarrow> (ev0, Died)
         | Some c \<Rightarrow>
             (case json_Marshal
                     [(''node'', JString (ID c)),
                      (''leader'', JString (currentLeader node)),
                      (''is_leader'', JBool (IsLeader node)),
                      (''timestamp'', JString (now_utc_rfc3339 env))] of
                Inl err \<Rightarrow>
                  (ev0 @ (case Write_error env of
                            None \<Rightarrow> []
                          | Some e \<Rightarrow>
                              [Logged Err (''failed writing http error response ('' @
                                 error_string err @ ''): '' @ error_string e)]),
                   Returned \<lparr>StatusCode = StatusInternalServerError, Header = [],
                             Body = Text (error_string err)\<rparr>)
              | Inr data \<Rightarrow>
                  (ev0 @ (case Write_error env of
                            None \<Rightarrow> []
                          | Some e \<Rightarrow>
                              [Logged Err (''failed to write leader info http response: '' @
                                 error_string e)]),
                   Returned \<lparr>StatusCode = StatusOK,
                             Header = [(''Content-Type'', [''application/json''])],
                             Body = JSON data\<rparr>)))"

subsection \<open>The status endpoint beside the election\<close>

text \<open>
  The handler runs on a goroutine of the HTTP server while the election library invokes
  the callbacks on another, and the source takes no lock and uses no atomic. The handler
  reads \<^verbatim>\<open>currentLeader\<close> twice: once for \<open>leader\<close> and once, inside \<^verbatim>\<open>IsLeader()\<close>,
  for \<open>is_leader\<close>. Here the callbacks \<open>cbs\<close> run between the two reads, taken in the
  order of the source; each read and each assignment is one step.
\<close>

definition httpLeaderInfo_between ::
  "http_env \<Rightarrow> http_request \<Rightarrow> callback list \<Rightarrow> ElectorNode \<Rightarrow>
     event list \<times> ElectorNode \<times> http_response outcome" where
  "httpLeaderInfo_between env req cbs node =
     (let ev0 = [Logged Info (''received incoming http request: '' @ Method req @ '' '' @
                              URL req @ '' ('' @ RemoteAddr req @ '')'')]
      in case config node of
           None \<Rightarrow> (ev0, node, Died)
         | Some c \<Rightarrow>
             (let leader = currentLeader node;
                  (evc, node') = callbacks_run c cbs node;
                  is_leader = IsLeader node'
              in case json_Marshal
                        [(''node'', JString (ID c)),
                         (''leader'', JString leader),
                         (''is_leader'', JBool is_leader),
                         (''timestamp'', JString (now_utc_rfc3339 env))] of
                   Inl err \<Rightarrow>
                     (ev0 @ evc @
                        (case Write_error env of
                           None \<Rightarrow> []
                         | Some e \<Rightarrow>
                             [Logged Err (''failed writing http error response ('' @
                                error_string err @ ''): '' @ error_string e)]),
                      node',
                      Returned \<lparr>StatusCode = StatusInternalServerError, Header = [],
                                Body = Text (error_string err)\<rparr>)
                 | Inr data \<Rightarrow>
                     (ev0 @ evc @
                        (case Write_error env of
                           None \<Rightarrow> []
                         | Some e \<Rightarrow>
                             [Logged Err (''failed to write leader info http response: '' @
                                error_string e)]),
                      node',
                      Returned \<lparr>StatusCode = StatusOK,
                                Header = [(''Content-Type'', [''application/json''])],
                                Body = JSON data\<rparr>)))"

fun is_OnNewLeader :: "callback \<Rightarrow> bool" where
  "is_OnNewLeader (OnNewLeader _ _) = True"
| "is_OnNewLeader _ = False"

text \<open>
  The status of the node in one of its states, as the endpoint presents a status: own
  identity, observed leader, whether the two agree, and the time of the answer.
\<close>

definition status_snapshot :: "string \<Rightarrow> ElectorConfig \<Rightarrow> ElectorNode \<Rightarrow> (string \<times> json) list" where
  "status_snapshot ts c node =
     [(''node'', JString (ID c)),
      (''leader'', JString (currentLeader node)),
      (''is_leader'', JBool (ID c = currentLeader node)),
      (''timestamp'', JString ts)]"

subsection \<open>The election configurations a trace starts\<close>

fun started_elections :: "event list \<Rightarrow> LeaderElectionConfig list" where
  "started_elections [] = []"
| "started_elections (CallRunOrDie cfg # es) = cfg # started_elections es"
| "started_elections (_ # es) = started_elections es"

text \<open>
  The condition the specification puts on the durations of an election: the renew
  deadline below the lease duration, and the retry period below the renew deadline.
\<close>

definition spec_durations_valid :: "LeaderElectionConfig \<Rightarrow> bool" where
  "spec_durations_valid cfg =
     (sint (RenewDeadline cfg) < sint (LeaseDuration cfg) \<and>
      sint (RetryPeriod cfg) < sint (RenewDeadline cfg))"

subsection \<open>Concrete inputs\<close>

text \<open>\<^verbatim>\<open>&ElectorConfig{}\<close>, the configuration of \<^verbatim>\<open>TestElectorNode_Run_badConfig\<close>.\<close>

definition empty_config :: ElectorConfig where
  "empty_config =
     \<lparr>Address = '''', ID = '''', KubeConfig = '''', LockType = '''', Name = '''',
      Namespace = '''', PodName = '''', TTL = 0\<rparr>"

text \<open>The two configurations of \<^verbatim>\<open>TestElectorNode_checkConfig_ok\<close>.\<close>

definition test_config :: ElectorConfig where
  "test_config = empty_config\<lparr>Name := ''test-name'', Namespace := ''test-ns''\<rparr>"

definition full_config :: ElectorConfig where
  "full_config =
     \<lparr>Address = ''localhost:5001'', ID = ''test-id'', KubeConfig = ''./config'',
      LockType = ''configmaps'', Name = ''test-name'', Namespace = ''test-ns'',
      PodName = '''', TTL = 1 * Second\<rparr>"

text \<open>
  A host named \<open>elector-0\<close> with no \<^verbatim>\<open>ELECTOR_POD_NAME\<close> in its environment, on which
  the HTTP server can listen.
\<close>

definition test_os :: os_env where
  "test_os = \<lparr>Hostname = Inr ''elector-0'', Getenv = (\<lambda>_. ''''), ListenAndServe = None\<rparr>"

text \<open>A Pod without labels, whose patch succeeds.\<close>

definition quiet_pod :: pod_api where
  "quiet_pod = \<lparr>pod_Get = Inr [], pod_Patch = None\<rparr>"

text \<open>
  An election library that refuses, before any callback, the durations the
  specification rules out, and otherwise returns without a callback.
\<close>

definition strict_library :: "LeaderElectionConfig \<Rightarrow> election_run" where
  "strict_library cfg = (if spec_durations_valid cfg then Returns [] else Panics [])"

text \<open>
  Four sessions: one in which every library call succeeds and the election returns
  without a callback; one outside a cluster and without a readable kubeconfig; one in
  which the client and the lock can be made and the election library is the strict one;
  and one in which the election library panics after the node has started leading.
\<close>

definition good_session :: session_env where
  "good_session =
     \<lparr>BuildConfigFromFlags = None, InClusterConfig = None, NewForConfig = None,
      resourcelock_New = None, RunOrDie = (\<lambda>_. Returns [])\<rparr>"

definition no_cluster_session :: session_env where
  "no_cluster_session =
     \<lparr>BuildConfigFromFlags = Some (External ''stat ./config: no such file or directory''),
      InClusterConfig = Some (External ''unable to load in-cluster configuration''),
      NewForConfig = None, resourcelock_New = None, RunOrDie = (\<lambda>_. Returns [])\<rparr>"

definition strict_session :: session_env where
  "strict_session =
     \<lparr>BuildConfigFromFlags = None, InClusterConfig = None, NewForConfig = None,
      resourcelock_New = None, RunOrDie = strict_library\<rparr>"

definition crashing_session :: session_env where
  "crashing_session =
     \<lparr>BuildConfigFromFlags = None, InClusterConfig = None, NewForConfig = None,
      resourcelock_New = None, RunOrDie = (\<lambda>_. Panics [OnStartedLeading quiet_pod])\<rparr>"

text \<open>A request to the status endpoint, and the clock and connection it meets.\<close>

definition test_request :: http_request where
  "test_request = \<lparr>Method = ''GET'', URL = ''localhost:3333/'', RemoteAddr = ''192.0.2.1:1234''\<rparr>"

definition test_http_env :: http_env where
  "test_http_env = \<lparr>now_utc_rfc3339 = ''2019-05-02T18:28:51Z'', Write_error = None\<rparr>"

text \<open>
  The configuration \<^verbatim>\<open>cmd/elector.go\<close> builds from the command line
  \<^verbatim>\<open>-election=example-election -ttl=0s\<close>, the other flags at their defaults.
\<close>

definition zero_ttl_config :: ElectorConfig where
  "zero_ttl_config =
     \<lparr>Address = '''', ID = '''', KubeConfig = '''', LockType = ''leases'',
      Name = ''example-election'', Namespace = ''default'', PodName = '''', TTL = 0\<rparr>"

text \<open>A new node with the identity \<open>n1\<close>.\<close>

definition n1_config :: ElectorConfig where
  "n1_config = empty_config\<lparr>ID := ''n1''\<rparr>"

section \<open>Properties\<close>

subsection \<open>Auxiliary facts\<close>

lemma fst_prepend: "fst (prepend evs r) = evs @ fst r"
  by (simp add: prepend_def)

lemma snd_prepend: "snd (prepend evs r) = snd r"
  by (simp add: prepend_def)

lemma started_elections_append:
  "started_elections (xs @ ys) = started_elections xs @ started_elections ys"
  by (induction xs rule: started_elections.induct) simp_all

lemma started_elections_updatePodLabel:
  "updatePodLabel api c v = (ev, err) \<Longrightarrow> started_elections ev = []"
  by (auto simp: updatePodLabel_def Let_def split: sum.splits)

lemma started_elections_callback_step:
  "callback_step c cb node = (ev, node') \<Longrightarrow> started_elections ev = []"
  by (cases cb)
    (auto simp: Let_def started_elections_append
      split: prod.splits option.splits if_splits
      dest: started_elections_updatePodLabel)

lemma started_elections_callbacks_run:
  "callbacks_run c cbs node = (ev, node') \<Longrightarrow> started_elections ev = []"
proof (induction cbs arbitrary: node ev node')
  case Nil
  then show ?case by simp
next
  case (Cons cb cbs)
  obtain ev1 node1 where step: "callback_step c cb node = (ev1, node1)"
    by (cases "callback_step c cb node")
  obtain ev2 node2 where rest: "callbacks_run c cbs node1 = (ev2, node2)"
    by (cases "callbacks_run c cbs node1")
  have "started_elections ev1 = []"
    using started_elections_callback_step [OF step] .
  moreover have "started_elections ev2 = []"
    using Cons.IH [OF rest] .
  moreover have "ev = ev1 @ ev2"
    using Cons.prems step rest by simp
  ultimately show ?case
    by (simp add: started_elections_append)
qed

text \<open>Truncated division by a positive constant stays between its dividend and zero.\<close>

lemma sdiv_between:
  fixes x k :: int
  assumes "0 < k"
  shows "min x 0 \<le> x sdiv k \<and> x sdiv k \<le> max x 0"
proof -
  have le: "\<bar>x\<bar> div k \<le> \<bar>x\<bar>"
    using zdiv_mono2 [of "\<bar>x\<bar>" 1 k] assms by simp
  have ge: "0 \<le> \<bar>x\<bar> div k"
    using assms by (simp add: pos_imp_zdiv_nonneg_iff)
  show ?thesis
  proof (cases "0 \<le> x")
    case True
    with le ge assms show ?thesis
      by (auto simp: signed_divide_int_def sgn_if)
  next
    case False
    with le ge assms show ?thesis
      by (auto simp: signed_divide_int_def sgn_if)
  qed
qed

text \<open>So the quotient fits into an \<^verbatim>\<open>int64\<close>, and \<open>duration_div\<close> is Go's division.\<close>

lemma sint_duration_div:
  assumes "0 < k"
  shows "sint (duration_div d k) = sint d sdiv k"
proof -
  have lo: "- (2 ^ 63) \<le> sint d" and hi: "sint d < 2 ^ 63"
    using sint_ge [of d] sint_lt [of d] by simp_all
  have "- (2 ^ 63) \<le> sint d sdiv k" and "sint d sdiv k < 2 ^ 63"
    using sdiv_between [OF assms, of "sint d"] lo hi by linarith+
  then show ?thesis
    unfolding duration_div_def
    by (simp add: sint_sbintrunc' signed_take_bit_int_eq_self)
qed

text \<open>The callbacks leave the configuration alone, and only one of them names a leader.\<close>

lemma callback_step_config:
  "config (snd (callback_step c cb node)) = config node"
  by (cases cb) (simp_all add: Let_def split: prod.splits)

lemma callback_step_currentLeader:
  "currentLeader (snd (callback_step c cb node)) =
     (case cb of OnNewLeader identity api \<Rightarrow> identity | _ \<Rightarrow> currentLeader node)"
  by (cases cb) (simp_all add: Let_def split: prod.splits)

lemma callbacks_run_config:
  "config (snd (callbacks_run c cbs node)) = config node"
proof (induction cbs arbitrary: node)
  case Nil
  show ?case by simp
next
  case (Cons cb cbs)
  show ?case
    using Cons.IH [of "snd (callback_step c cb node)"] callback_step_config [of c cb node]
    by (auto simp: Let_def split: prod.splits)
qed

lemma callbacks_run_currentLeader:
  "filter is_OnNewLeader cbs = [] \<Longrightarrow>
     currentLeader (snd (callbacks_run c cbs node)) = currentLeader node"
proof (induction cbs arbitrary: node)
  case Nil
  show ?case by simp
next
  case (Cons cb cbs)
  have no: "\<not> is_OnNewLeader cb" and rest: "filter is_OnNewLeader cbs = []"
    using Cons.prems by (simp_all split: if_splits)
  have "currentLeader (snd (callback_step c cb node)) = currentLeader node"
    using no callback_step_currentLeader [of c cb node] by (cases cb) simp_all
  then show ?case
    using Cons.IH [OF rest, of "snd (callback_step c cb node)"]
    by (auto simp: Let_def split: prod.splits)
qed

lemma checkConfig_currentLeader:
  "currentLeader (fst (snd (checkConfig os node))) = currentLeader node"
  by (simp add: checkConfig_def Let_def split: option.splits sum.splits prod.splits)

lemma listenForSignal_currentLeader:
  "currentLeader (snd (listenForSignal sig node)) = currentLeader node"
  by (simp add: listenForSignal_def cancel_def)

lemma serveHTTP_currentLeader:
  "currentLeader (fst (snd (serveHTTP listen node))) = currentLeader node"
  by (simp add: serveHTTP_def Let_def split: option.splits)

text \<open>A session that returns an error has not reached the election library.\<close>

lemma run_error_before_election:
  assumes "run env node = (evs, node', Returned (Some e))"
  shows "started_elections evs = [] \<and> node' = node"
  using assms
  by (auto simp: run_def buildClientConfig_def Let_def
      split: option.splits sum.splits if_splits election_run.splits prod.splits)

lemma started_elections_buildClientConfig:
  "buildClientConfig env node = (ev, r) \<Longrightarrow> started_elections ev = []"
  by (auto simp: buildClientConfig_def split: option.splits if_splits)

text \<open>A session that reaches the election library starts exactly one election.\<close>

lemma run_starts_election:
  assumes "config node = Some c"
    and "snd (buildClientConfig env node) = Inr rc"
    and "NewForConfig env = None"
    and "resourcelock_New env = None"
  shows "started_elections (fst (run env node)) = [electionConfig c]"
proof -
  obtain ev1 where b: "buildClientConfig env node = (ev1, Inr rc)"
    using assms(2) by (cases "buildClientConfig env node") simp
  have ev1: "started_elections ev1 = []"
    using started_elections_buildClientConfig [OF b] .
  show ?thesis
    using assms(1,3,4) b ev1
    by (auto simp: run_def Let_def started_elections_append
        split: election_run.splits prod.splits
        dest: started_elections_callbacks_run)
qed

text \<open>
  The loop of \<^verbatim>\<open>runUntilError\<close> has two \<^verbatim>\<open>return\<close> statements, and neither returns
  \<^verbatim>\<open>nil\<close>: one returns the error of a cancelled context, the other an error that was
  compared with \<^verbatim>\<open>nil\<close>.
\<close>

lemma runUntilError_not_nil:
  "snd (snd (runUntilError its node)) \<noteq> Some (Returned None)"
proof (induction its arbitrary: node)
  case Nil
  show ?case by simp
next
  case (Cons it its)
  obtain ev1 node1 r where r: "run (session it) node = (ev1, node1, r)"
    by (cases "run (session it) node")
  show ?case
  proof (cases r)
    case Died
    with r show ?thesis by simp
  next
    case (Returned err)
    obtain ev2 node2 where s:
      "(case signal it of None \<Rightarrow> ([], node1) | Some sig \<Rightarrow> listenForSignal sig node1) = (ev2, node2)"
      by (cases "case signal it of None \<Rightarrow> ([], node1) | Some sig \<Rightarrow> listenForSignal sig node1")
    show ?thesis
      using r Returned s Cons.IH [of node2]
      by (cases err) (simp_all add: ctx_Err_def snd_prepend)
  qed
qed

text \<open>Hence the last two statements of \<^verbatim>\<open>Run\<close> are never reached.\<close>

lemma Run_not_nil:
  "snd (snd (Run os its node)) \<noteq> Some (Returned None)"
proof -
  obtain ev1 node1 e where c: "checkConfig os node = (ev1, node1, e)"
    by (cases "checkConfig os node")
  obtain evh nodeh h where s: "serveHTTP (ListenAndServe os) node1 = (evh, nodeh, h)"
    by (cases "serveHTTP (ListenAndServe os) node1")
  obtain ev3 node3 r where l: "runUntilError its nodeh = (ev3, node3, r)"
    by (cases "runUntilError its nodeh")
  have "r \<noteq> Some (Returned None)"
    using runUntilError_not_nil [of its nodeh] l by simp
  then show ?thesis
    using c s l
    by (cases e; cases r; cases h)
      (auto simp: Run_def Let_def split: outcome.splits option.splits)
qed

subsection \<open>The supervisor and session-ending errors\<close>

text \<open>
  C1 (as amended). When the \<^verbatim>\<open>select\<close> of \<^verbatim>\<open>runUntilError\<close> does not take the case
  \<^verbatim>\<open>ctx.Done()\<close>, the turn goes by what became of the session. If \<^verbatim>\<open>run\<close> returned a
  non-nil error, \<^verbatim>\<open>runUntilError\<close> logs "terminating: run error" and returns that error,
  without sleeping and without starting another session. If \<^verbatim>\<open>run\<close> returned \<^verbatim>\<open>nil\<close>,
  it sleeps one second, logs "re-running election" and goes round the loop again. If the
  process died in the session, the loop ends with it. And once the election library has
  been called, the session does not return an error: it returns \<^verbatim>\<open>nil\<close>, and is
  followed by a new session, or the process dies in the library.
\<close>

theorem runUntilError_session_end:
  assumes "run (session it) node = (evs, node1, res)"
    and "(case signal it of None \<Rightarrow> ([], node1) | Some sig \<Rightarrow> listenForSignal sig node1) =
           (ev2, node2)"
    and "\<not> (cancelled node2 \<and> pick it = CtxDone)"
  shows "runUntilError (it # its) node =
           (case res of
              Died \<Rightarrow> (SessionSpawned # evs, node1, Some Died)
            | Returned (Some e) \<Rightarrow>
                (SessionSpawned # evs @ ev2 @
                   [Logged Info (''terminating: run error  ('' @ error_string e @ '')'')],
                 node2, Some (Returned (Some e)))
            | Returned None \<Rightarrow>
                prepend (SessionSpawned # evs @ ev2 @
                           [Slept Second, Logged Info ''re-running election''])
                  (runUntilError its node2))
         \<and> (started_elections evs \<noteq> [] \<longrightarrow> res = Returned None \<or> res = Died)"
proof -
  have loop: "runUntilError (it # its) node =
           (case res of
              Died \<Rightarrow> (SessionSpawned # evs, node1, Some Died)
            | Returned (Some e) \<Rightarrow>
                (SessionSpawned # evs @ ev2 @
                   [Logged Info (''terminating: run error  ('' @ error_string e @ '')'')],
                 node2, Some (Returned (Some e)))
            | Returned None \<Rightarrow>
                prepend (SessionSpawned # evs @ ev2 @
                           [Slept Second, Logged Info ''re-running election''])
                  (runUntilError its node2))"
  proof (cases res)
    case Died
    with assms(1) show ?thesis by simp
  next
    case (Returned err)
    with assms show ?thesis by (cases err) auto
  qed
  have lib: "started_elections evs \<noteq> [] \<longrightarrow> res = Returned None \<or> res = Died"
  proof (cases res)
    case Died
    then show ?thesis by simp
  next
    case (Returned err)
    show ?thesis
    proof (cases err)
      case None
      with Returned show ?thesis by simp
    next
      case (Some e)
      with Returned assms(1) have "started_elections evs = []"
        using run_error_before_election [of "session it" node evs node1 e] by simp
      then show ?thesis by simp
    qed
  qed
  from loop lib show ?thesis by (rule conjI)
qed

text \<open>
  The theorem at a node whose kubeconfig file cannot be read: the first session ends with
  that error, and the second described turn is never taken.
\<close>

theorem runUntilError_session_end_witness:
  "run (session \<lparr>session = no_cluster_session, signal = None, pick = ErrChan\<rparr>)
       (NewElectorNode (Some full_config)) =
     ([CallBuildConfigFromFlags ''./config''], NewElectorNode (Some full_config),
      Returned (Some (External ''stat ./config: no such file or directory'')))
   \<and> (case signal \<lparr>session = no_cluster_session, signal = None, pick = ErrChan\<rparr> of
         None \<Rightarrow> ([], NewElectorNode (Some full_config))
       | Some sig \<Rightarrow> listenForSignal sig (NewElectorNode (Some full_config))) =
       ([], NewElectorNode (Some full_config))
   \<and> \<not> (cancelled (NewElectorNode (Some full_config)) \<and>
          pick \<lparr>session = no_cluster_session, signal = None, pick = ErrChan\<rparr> = CtxDone)
   \<and> runUntilError
        [\<lparr>session = no_cluster_session, signal = None, pick = ErrChan\<rparr>,
         \<lparr>session = good_session, signal = None, pick = ErrChan\<rparr>]
        (NewElectorNode (Some full_config)) =
      ([SessionSpawned, CallBuildConfigFromFlags ''./config'',
        Logged Info ''terminating: run error  (stat ./config: no such file or directory)''],
       NewElectorNode (Some full_config),
       Some (Returned (Some (External ''stat ./config: no such file or directory''))))"
proof -
  let ?it = "\<lparr>session = no_cluster_session, signal = None, pick = ErrChan\<rparr>"
  let ?node = "NewElectorNode (Some full_config)"
  have h1: "run (session ?it) ?node =
     ([CallBuildConfigFromFlags ''./config''], ?node,
      Returned (Some (External ''stat ./config: no such file or directory'')))"
    by (simp add: run_def buildClientConfig_def NewElectorNode_def full_config_def
        no_cluster_session_def)
  have h2: "(case signal ?it of None \<Rightarrow> ([], ?node) | Some sig \<Rightarrow> listenForSignal sig ?node) =
        ([], ?node)"
    by simp
  have h3: "\<not> (cancelled ?node \<and> pick ?it = CtxDone)"
    by simp
  show ?thesis
    using runUntilError_session_end [OF h1 h2 h3,
        of "[\<lparr>session = good_session, signal = None, pick = ErrChan\<rparr>]"] h1
    by simp
qed

text \<open>
  The claim as it was stated fails. Outside a cluster the first session ends with an
  error, and \<^verbatim>\<open>runUntilError\<close> returns it after one session, without a sleep, although
  a second turn was there to be taken. And where the election library panics after the
  node has started leading, the loop ends with the process, whatever turn was to follow.
\<close>

theorem runUntilError_restart_counterexample:
  "run no_cluster_session (NewElectorNode (Some test_config)) =
     ([CallInClusterConfig], NewElectorNode (Some test_config),
      Returned (Some (External ''unable to load in-cluster configuration'')))
   \<and> runUntilError
        [\<lparr>session = no_cluster_session, signal = None, pick = ErrChan\<rparr>,
         \<lparr>session = good_session, signal = None, pick = ErrChan\<rparr>]
        (NewElectorNode (Some test_config)) =
      ([SessionSpawned, CallInClusterConfig,
        Logged Info ''terminating: run error  (unable to load in-cluster configuration)''],
       NewElectorNode (Some test_config),
       Some (Returned (Some (External ''unable to load in-cluster configuration''))))
   \<and> snd (snd (runUntilError
        [\<lparr>session = crashing_session, signal = None, pick = ErrChan\<rparr>,
         \<lparr>session = good_session, signal = None, pick = ErrChan\<rparr>]
        (NewElectorNode (Some full_config)))) = Some Died"
  by (simp add: run_def buildClientConfig_def NewElectorNode_def test_config_def
      empty_config_def no_cluster_session_def full_config_def crashing_session_def
      quiet_pod_def updatePodLabel_def Let_def)

subsection \<open>Cancellation\<close>

text \<open>
  C2. A termination signal arrives while a session runs and the \<^verbatim>\<open>select\<close> takes
  \<^verbatim>\<open>ctx.Done()\<close>: \<^verbatim>\<open>runUntilError\<close> returns \<^verbatim>\<open>node.ctx.Err()\<close>, which is
  \<^verbatim>\<open>context.Canceled\<close> and not \<^verbatim>\<open>nil\<close>, and \<^verbatim>\<open>Run\<close> hands that error to its caller.
\<close>

theorem Run_cancelled_returns_error:
  "snd (snd (runUntilError
               [\<lparr>session = good_session, signal = Some ''terminated'', pick = CtxDone\<rparr>]
               (NewElectorNode (Some full_config)))) =
     Some (Returned (Some Canceled))
   \<and> snd (snd (Run test_os
               [\<lparr>session = good_session, signal = Some ''terminated'', pick = CtxDone\<rparr>]
               (NewElectorNode (Some full_config)))) =
     Some (Returned (Some Canceled))"
  by (simp add: Run_def checkConfig_def serveHTTP_def NewElectorNode_def full_config_def
      test_os_def good_session_def run_def buildClientConfig_def listenForSignal_def
      cancel_def ctx_Err_def Let_def)

subsection \<open>A missing election name\<close>

text \<open>
  C3. When the election name is empty, \<^verbatim>\<open>checkConfig\<close> rejects the configuration and
  \<^verbatim>\<open>Run\<close> returns that error having done nothing else: its trace is empty, so no
  client configuration is built, no client and no lock are created, and no call reaches
  the store.
\<close>

theorem Run_missing_name:
  assumes "config node = Some c"
    and "Name c = ''''"
  shows "checkConfig os node = ([], node, Some MissingName)
         \<and> Run os its node = ([], cancel node, Some (Returned (Some MissingName)))
         \<and> \<not> list_ex is_store_call (fst (Run os its node))"
  using assms by (simp add: Run_def checkConfig_def)

theorem Run_missing_name_witness:
  "config (NewElectorNode (Some empty_config)) = Some empty_config
   \<and> Name empty_config = ''''
   \<and> checkConfig test_os (NewElectorNode (Some empty_config)) =
       ([], NewElectorNode (Some empty_config), Some MissingName)
   \<and> Run test_os [\<lparr>session = good_session, signal = None, pick = ErrChan\<rparr>]
         (NewElectorNode (Some empty_config)) =
       ([], cancel (NewElectorNode (Some empty_config)), Some (Returned (Some MissingName)))"
proof -
  have h1: "config (NewElectorNode (Some empty_config)) = Some empty_config"
    by (simp add: NewElectorNode_def)
  have h2: "Name empty_config = ''''"
    by (simp add: empty_config_def)
  show ?thesis
    using Run_missing_name [OF h1 h2, of test_os
        "[\<lparr>session = good_session, signal = None, pick = ErrChan\<rparr>]"] h1 h2
    by simp
qed

subsection \<open>The durations of the election\<close>

text \<open>
  C4. A session that gets as far as the election starts it once, with the lease duration
  equal to the TTL, the renew deadline equal to the TTL divided by 3 and the retry period
  equal to the TTL divided by 6, both divisions being Go's division of \<^verbatim>\<open>int64\<close>
  (truncation towards zero), whatever the TTL.
\<close>

theorem run_election_durations:
  assumes "config node = Some c"
    and "snd (buildClientConfig env node) = Inr rc"
    and "NewForConfig env = None"
    and "resourcelock_New env = None"
  shows "started_elections (fst (run env node)) = [electionConfig c]
         \<and> LeaseDuration (electionConfig c) = TTL c
         \<and> sint (RenewDeadline (electionConfig c)) = sint (TTL c) sdiv 3
         \<and> sint (RetryPeriod (electionConfig c)) = sint (TTL c) sdiv 6"
proof -
  have "started_elections (fst (run env node)) = [electionConfig c]"
    using assms by (rule run_starts_election)
  moreover have "LeaseDuration (electionConfig c) = TTL c"
    by (simp add: electionConfig_def)
  moreover have "sint (RenewDeadline (electionConfig c)) = sint (TTL c) sdiv 3"
    by (simp add: electionConfig_def sint_duration_div)
  moreover have "sint (RetryPeriod (electionConfig c)) = sint (TTL c) sdiv 6"
    by (simp add: electionConfig_def sint_duration_div)
  ultimately show ?thesis by simp
qed

theorem run_election_durations_witness:
  "config (NewElectorNode (Some full_config)) = Some full_config
   \<and> snd (buildClientConfig good_session (NewElectorNode (Some full_config))) =
       Inr (FromKubeconfig ''./config'')
   \<and> NewForConfig good_session = None
   \<and> resourcelock_New good_session = None
   \<and> map (\<lambda>cfg. (sint (LeaseDuration cfg), sint (RenewDeadline cfg), sint (RetryPeriod cfg)))
        (started_elections (fst (run good_session (NewElectorNode (Some full_config))))) =
       [(1000000000, 333333333, 166666666)]"
proof -
  have h1: "config (NewElectorNode (Some full_config)) = Some full_config"
    by (simp add: NewElectorNode_def)
  have h2: "snd (buildClientConfig good_session (NewElectorNode (Some full_config))) =
       Inr (FromKubeconfig ''./config'')"
    by (simp add: buildClientConfig_def NewElectorNode_def full_config_def good_session_def)
  have h3: "NewForConfig good_session = None"
    by (simp add: good_session_def)
  have h4: "resourcelock_New good_session = None"
    by (simp add: good_session_def)
  have t: "TTL full_config = 1000000000"
    by (simp add: full_config_def Second_def)
  show ?thesis
    using run_election_durations [OF h1 h2 h3 h4] h1 h2 h3 h4 t
    by (simp add: signed_divide_int_def)
qed

text \<open>The division truncates towards zero: a TTL of -7ns gives -2ns and -1ns.\<close>

lemma duration_div_truncates:
  "duration_div (- 7) 3 = - 2 \<and> duration_div (- 7) 6 = - 1 \<and> duration_div 5 6 = 0"
  by (simp add: duration_div_def signed_divide_int_def)

subsection \<open>The status endpoint\<close>

text \<open>
  C5. For a node with a configuration, the handler answers 200 with the header
  \<open>Content-Type: application/json\<close> and a JSON object whose members are \<open>node\<close> (the
  node's ID), \<open>leader\<close> (the current leader, empty when none has been observed),
  \<open>is_leader\<close> (\<^verbatim>\<open>IsLeader()\<close>) and \<open>timestamp\<close> (the UTC time in RFC 3339). For a
  new node with the ID \<open>n1\<close> these are \<open>n1\<close>, the empty string and \<open>false\<close>.
\<close>

theorem httpLeaderInfo_response:
  "snd (httpLeaderInfo env req (node\<lparr>config := Some c\<rparr>)) =
     Returned \<lparr>StatusCode = 200,
               Header = [(''Content-Type'', [''application/json''])],
               Body = JSON [(''node'', JString (ID c)),
                            (''leader'', JString (currentLeader node)),
                            (''is_leader'', JBool (IsLeader (node\<lparr>config := Some c\<rparr>))),
                            (''timestamp'', JString (now_utc_rfc3339 env))]\<rparr>
   \<and> snd (httpLeaderInfo env req (NewElectorNode (Some (c\<lparr>ID := ''n1''\<rparr>)))) =
     Returned \<lparr>StatusCode = 200,
               Header = [(''Content-Type'', [''application/json''])],
               Body = JSON [(''node'', JString ''n1''),
                            (''leader'', JString ''''),
                            (''is_leader'', JBool False),
                            (''timestamp'', JString (now_utc_rfc3339 env))]\<rparr>"
  by (simp add: httpLeaderInfo_def json_Marshal_def IsLeader_def NewElectorNode_def
      StatusOK_def Let_def)

subsection \<open>Invalid durations\<close>

text \<open>
  The node has no check of its own on the durations: \<^verbatim>\<open>checkConfig\<close> does not look at
  the TTL, and what it leaves behind has the TTL it found.
\<close>

lemma checkConfig_trace:
  "checkConfig os node = (ev1, node1, r) \<Longrightarrow>
     started_elections ev1 = [] \<and> currentLeader node1 = currentLeader node"
  by (auto simp: checkConfig_def Let_def split: option.splits sum.splits if_splits)

lemma checkConfig_keeps_TTL:
  assumes "checkConfig os node = (ev1, node1, None)"
    and "config node = Some c"
  shows "\<exists>c1. config node1 = Some c1 \<and> TTL c1 = TTL c"
  using assms
  by (auto simp: checkConfig_def Let_def split: sum.splits if_splits)

lemma serveHTTP_trace:
  "serveHTTP l node = (evh, nodeh, r) \<Longrightarrow>
     config nodeh = config node \<and> currentLeader nodeh = currentLeader node \<and>
     started_elections evh = []"
  by (auto simp: serveHTTP_def Let_def split: option.splits if_splits)

lemma spec_durations_valid_TTL:
  "TTL c' = TTL c \<Longrightarrow>
     spec_durations_valid (electionConfig c') = spec_durations_valid (electionConfig c)"
  by (simp add: spec_durations_valid_def electionConfig_def)

text \<open>
  A session with invalid durations, under a library that refuses them: it returns an
  error before the library is called, or the process dies in the call of the library.
\<close>

lemma run_refused:
  assumes "config node = Some c"
    and "\<not> spec_durations_valid (electionConfig c)"
    and "\<And>cfg. \<not> spec_durations_valid cfg \<Longrightarrow> RunOrDie env cfg = Panics []"
    and "run env node = (evs, node1, res)"
  shows "node1 = node \<and>
         ((\<exists>e. res = Returned (Some e)) \<and> started_elections evs = [] \<or>
          res = Died \<and> started_elections evs = [electionConfig c] \<and>
            last evs = CallRunOrDie (electionConfig c))"
proof -
  have lib: "RunOrDie env (electionConfig c) = Panics []"
    using assms(2,3) by simp
  show ?thesis
    using assms(1,4) lib
    by (auto simp: run_def buildClientConfig_def Let_def
        split: option.splits if_splits)
qed

lemma runUntilError_refused:
  assumes "config node = Some c"
    and "\<not> spec_durations_valid (electionConfig c)"
    and "\<And>cfg. \<not> spec_durations_valid cfg \<Longrightarrow> RunOrDie (session it) cfg = Panics []"
    and "runUntilError (it # its) node = (evs, node', res)"
  shows "(res = Some Died \<or> (\<exists>e. res = Some (Returned (Some e)))) \<and>
         currentLeader node' = currentLeader node \<and>
         (started_elections evs = [] \<or>
          res = Some Died \<and> started_elections evs = [electionConfig c] \<and>
            last evs = CallRunOrDie (electionConfig c))"
proof -
  obtain ev1 node1 r where r: "run (session it) node = (ev1, node1, r)"
    by (cases "run (session it) node")
  from run_refused [OF assms(1,2,3) r]
  have n1: "node1 = node"
    and alt: "(\<exists>e. r = Returned (Some e)) \<and> started_elections ev1 = [] \<or>
              r = Died \<and> started_elections ev1 = [electionConfig c] \<and>
                last ev1 = CallRunOrDie (electionConfig c)"
    by simp_all
  from alt show ?thesis
  proof
    assume "(\<exists>e. r = Returned (Some e)) \<and> started_elections ev1 = []"
    then obtain e where e: "r = Returned (Some e)" and none: "started_elections ev1 = []"
      by blast
    obtain ev2 node2 where s:
      "(case signal it of None \<Rightarrow> ([], node1) | Some sig \<Rightarrow> listenForSignal sig node1) = (ev2, node2)"
      by (cases "case signal it of None \<Rightarrow> ([], node1) | Some sig \<Rightarrow> listenForSignal sig node1")
    have s2: "started_elections ev2 = [] \<and> currentLeader node2 = currentLeader node"
      using s n1 by (auto simp: listenForSignal_def cancel_def split: option.splits)
    show ?thesis
      using assms(4) r e none s s2
      by (auto simp: started_elections_append ctx_Err_def split: if_splits)
  next
    assume "r = Died \<and> started_elections ev1 = [electionConfig c] \<and>
              last ev1 = CallRunOrDie (electionConfig c)"
    then show ?thesis
      using assms(4) r n1 by auto
  qed
qed

text \<open>Every turn of the loop begins by starting a session.\<close>

lemma runUntilError_starts_session:
  "\<exists>rest. fst (runUntilError (it # its) node) =
            SessionSpawned # fst (run (session it) node) @ rest"
proof -
  obtain ev1 node1 r where r: "run (session it) node = (ev1, node1, r)"
    by (cases "run (session it) node")
  show ?thesis
  proof (cases r)
    case Died
    with r show ?thesis by simp
  next
    case (Returned err)
    obtain ev2 node2 where s:
      "(case signal it of None \<Rightarrow> ([], node1) | Some sig \<Rightarrow> listenForSignal sig node1) = (ev2, node2)"
      by (cases "case signal it of None \<Rightarrow> ([], node1) | Some sig \<Rightarrow> listenForSignal sig node1")
    show ?thesis
      using r Returned s by (cases err) (simp_all add: fst_prepend)
  qed
qed

text \<open>
  With an election name, a hostname, an HTTP server that is not asked for or can listen,
  and a client configuration, a client and a lock that can be made, \<^verbatim>\<open>Run\<close> gets as
  far as the election library, whatever the TTL.
\<close>

lemma checkConfig_passes:
  assumes "config node = Some c"
    and "Name c \<noteq> ''''"
    and "Hostname os = Inr h"
  shows "snd (snd (checkConfig os node)) = None \<and>
         (\<exists>c'. config (fst (snd (checkConfig os node))) = Some c' \<and>
               KubeConfig c' = KubeConfig c \<and> Address c' = Address c)"
proof (cases "Getenv os EnvPodName = ''''")
  case True
  with assms show ?thesis
    by (cases "ID c = ''''") (simp_all add: checkConfig_def Let_def)
next
  case False
  with assms show ?thesis
    by (cases "ID c = ''''") (simp_all add: checkConfig_def Let_def)
qed

lemma Run_reaches_library:
  assumes "config node = Some c"
    and "Name c \<noteq> ''''"
    and "Hostname os = Inr h"
    and "Address c = '''' \<or> ListenAndServe os = None"
    and "(if KubeConfig c \<noteq> '''' then BuildConfigFromFlags (session it)
          else InClusterConfig (session it)) = None"
    and "NewForConfig (session it) = None"
    and "resourcelock_New (session it) = None"
  shows "started_elections (fst (Run os (it # its) node)) \<noteq> []"
proof -
  from checkConfig_passes [OF assms(1,2,3)]
  obtain ev1 node1 c1 where ck: "checkConfig os node = (ev1, node1, None)"
    and c1: "config node1 = Some c1" "KubeConfig c1 = KubeConfig c" "Address c1 = Address c"
    by (cases "checkConfig os node") auto
  obtain evh nodeh h' where sv: "serveHTTP (ListenAndServe os) node1 = (evh, nodeh, h')"
    by (cases "serveHTTP (ListenAndServe os) node1")
  have alive: "h' \<noteq> Some Died"
    using sv c1(1,3) assms(4)
    by (auto simp: serveHTTP_def Let_def split: if_splits option.splits)
  have cfgh: "config nodeh = Some c1"
    using serveHTTP_trace [OF sv] c1(1) by simp
  have "\<exists>rc. snd (buildClientConfig (session it) nodeh) = Inr rc"
    using cfgh c1(2) assms(5) by (auto simp: buildClientConfig_def split: if_splits)
  then obtain rc where rc: "snd (buildClientConfig (session it) nodeh) = Inr rc" ..
  have started: "started_elections (fst (run (session it) nodeh)) = [electionConfig c1]"
    using run_starts_election [OF cfgh rc assms(6,7)] .
  obtain ev3 node3 r where l: "runUntilError (it # its) nodeh = (ev3, node3, r)"
    by (cases "runUntilError (it # its) nodeh")
  obtain rest where ev3: "ev3 = SessionSpawned # fst (run (session it) nodeh) @ rest"
    using runUntilError_starts_session [of it its nodeh] l by auto
  have "\<exists>tail. fst (Run os (it # its) node) =
      ev1 @ [ConfigLogged (config node1), SignalListenerSpawned, HTTPServerSpawned] @
      evh @ ev3 @ tail"
    using ck sv alive l
    by (cases h'; cases r)
      (auto simp: Run_def Let_def simp del: runUntilError.simps
        split: outcome.splits option.splits)
  then obtain tail where "fst (Run os (it # its) node) =
      ev1 @ [ConfigLogged (config node1), SignalListenerSpawned, HTTPServerSpawned] @
      evh @ ev3 @ tail"
    by blast
  then show ?thesis
    using ev3 started by (simp add: started_elections_append)
qed

text \<open>
  With invalid durations and a library that refuses them, \<^verbatim>\<open>Run\<close> ends in its first
  turn, before any callback.
\<close>

lemma Run_fails_at_startup:
  assumes "config node = Some c"
    and "\<not> spec_durations_valid (electionConfig c)"
    and "\<And>cfg. \<not> spec_durations_valid cfg \<Longrightarrow> RunOrDie (session it) cfg = Panics []"
    and "Run os (it # its) node = (evs, node', res)"
  shows "(res = Some Died \<or> (\<exists>e. res = Some (Returned (Some e))))
         \<and> currentLeader node' = currentLeader node
         \<and> (started_elections evs = [] \<or>
            (\<exists>cfg. started_elections evs = [cfg] \<and> last evs = CallRunOrDie cfg \<and>
                   LeaseDuration cfg = TTL c \<and> res = Some Died))"
proof -
  obtain ev1 node1 e where ck: "checkConfig os node = (ev1, node1, e)"
    by (cases "checkConfig os node")
  have ck1: "started_elections ev1 = []" "currentLeader node1 = currentLeader node"
    using checkConfig_trace [OF ck] by simp_all
  show ?thesis
  proof (cases e)
    case (Some err)
    then show ?thesis
      using assms(4) ck ck1 by (auto simp: Run_def cancel_def)
  next
    case None
    obtain c1 where c1: "config node1 = Some c1" "TTL c1 = TTL c"
      using checkConfig_keeps_TTL [OF ck [unfolded None] assms(1)] by blast
    obtain evh nodeh h where sv: "serveHTTP (ListenAndServe os) node1 = (evh, nodeh, h)"
      by (cases "serveHTTP (ListenAndServe os) node1")
    have sv1: "config nodeh = Some c1" "currentLeader nodeh = currentLeader node"
      "started_elections evh = []"
      using serveHTTP_trace [OF sv] c1(1) ck1(2) by simp_all
    let ?ev2 = "ev1 @ [ConfigLogged (config node1), SignalListenerSpawned, HTTPServerSpawned]"
    have ev2: "started_elections ?ev2 = []"
      using ck1(1) by (simp add: started_elections_append)
    show ?thesis
    proof (cases "h = Some Died")
      case True
      then show ?thesis
        using assms(4) ck None sv sv1 ev2
        by (auto simp: Run_def Let_def started_elections_append)
    next
      case False
      obtain ev3 node3 r where l: "runUntilError (it # its) nodeh = (ev3, node3, r)"
        by (cases "runUntilError (it # its) nodeh")
      have inv: "\<not> spec_durations_valid (electionConfig c1)"
        using assms(2) spec_durations_valid_TTL [OF c1(2)] by simp
      from runUntilError_refused [OF sv1(1) inv assms(3) l]
      have r: "r = Some Died \<or> (\<exists>e. r = Some (Returned (Some e)))"
        and lead: "currentLeader node3 = currentLeader nodeh"
        and el: "started_elections ev3 = [] \<or>
                 r = Some Died \<and> started_elections ev3 = [electionConfig c1] \<and>
                   last ev3 = CallRunOrDie (electionConfig c1)"
        by simp_all
      have lease: "LeaseDuration (electionConfig c1) = TTL c"
        using c1(2) by (simp add: electionConfig_def)
      have run_eq: "Run os (it # its) node =
          (?ev2 @ evh @ ev3,
           (case r of Some (Returned (Some err)) \<Rightarrow> cancel node3 | _ \<Rightarrow> node3), r)"
        using ck None sv False l r
        by (cases h; cases r)
          (auto simp: Run_def Let_def split: outcome.splits option.splits)
      have evs: "evs = ?ev2 @ evh @ ev3" and res: "res = r"
        and node': "currentLeader node' = currentLeader node3"
        using assms(4) run_eq
        by (auto simp: cancel_def split: option.splits outcome.splits)
      have nonempty: "started_elections ev3 \<noteq> [] \<Longrightarrow> ev3 \<noteq> []"
        by auto
      show ?thesis
        using r lead el lease evs res node' sv1 ev2 nonempty
        by (auto simp: started_elections_append)
    qed
  qed
qed

text \<open>
  C6. Take a configuration whose derived durations are invalid (the renew deadline not
  below the lease duration, or the retry period not below the renew deadline; a TTL of
  zero is one), and an election library that refuses such durations when it is called,
  as \<^verbatim>\<open>RunOrDie\<close> does by its panic. Then \<^verbatim>\<open>Run\<close> fails in its first turn: it returns
  an error or the process dies, and it never stays running or returns \<^verbatim>\<open>nil\<close>. No
  callback of the election ever runs, so no leader is observed. Either the library is
  never called, or it is called once, with the configured TTL as the lease duration, the
  process dies in that call, and that call is the last thing the process does. And when
  nothing else fails first (there is an election name and a hostname, the HTTP server is
  not asked for or can listen, and the client configuration, the client and the lock can
  be made), it is in that call that the process dies.
\<close>

theorem Run_invalid_durations:
  assumes "config node = Some c"
    and "\<not> spec_durations_valid (electionConfig c)"
    and "\<And>cfg. \<not> spec_durations_valid cfg \<Longrightarrow> RunOrDie (session it) cfg = Panics []"
    and "Run os (it # its) node = (evs, node', res)"
  shows "(res = Some Died \<or> (\<exists>e. res = Some (Returned (Some e))))
         \<and> currentLeader node' = currentLeader node
         \<and> (started_elections evs = [] \<or>
            (\<exists>cfg. started_elections evs = [cfg] \<and> last evs = CallRunOrDie cfg \<and>
                   LeaseDuration cfg = TTL c \<and> res = Some Died))
         \<and> (Name c \<noteq> '''' \<and> (\<exists>h. Hostname os = Inr h) \<and>
            (Address c = '''' \<or> ListenAndServe os = None) \<and>
            (if KubeConfig c \<noteq> '''' then BuildConfigFromFlags (session it)
             else InClusterConfig (session it)) = None \<and>
            NewForConfig (session it) = None \<and> resourcelock_New (session it) = None
            \<longrightarrow> res = Some Died \<and> started_elections evs \<noteq> [])"
proof -
  note main = Run_fails_at_startup [OF assms]
  have reach: "res = Some Died \<and> started_elections evs \<noteq> []"
    if "Name c \<noteq> ''''" "Hostname os = Inr h" "Address c = '''' \<or> ListenAndServe os = None"
      "(if KubeConfig c \<noteq> '''' then BuildConfigFromFlags (session it)
        else InClusterConfig (session it)) = None"
      "NewForConfig (session it) = None" "resourcelock_New (session it) = None" for h
  proof -
    have "started_elections (fst (Run os (it # its) node)) \<noteq> []"
      using Run_reaches_library [OF assms(1) that] .
    then have "started_elections evs \<noteq> []"
      using assms(4) by simp
    with main show ?thesis by auto
  qed
  from main reach show ?thesis by blast
qed

text \<open>
  The theorem at the command line \<^verbatim>\<open>-election=example-election -ttl=0s\<close>, in a cluster,
  with the strict library: the node passes its own check, makes its client and its lock,
  calls the library with the durations 0, 0, 0, and the process dies there.
\<close>

theorem Run_invalid_durations_witness:
  "config (NewElectorNode (Some zero_ttl_config)) = Some zero_ttl_config
   \<and> \<not> spec_durations_valid (electionConfig zero_ttl_config)
   \<and> RunOrDie (session \<lparr>session = strict_session, signal = None, pick = ErrChan\<rparr>)
        (electionConfig zero_ttl_config) = Panics []
   \<and> snd (Run test_os [\<lparr>session = strict_session, signal = None, pick = ErrChan\<rparr>]
             (NewElectorNode (Some zero_ttl_config))) =
       (NewElectorNode
          (Some (zero_ttl_config\<lparr>PodName := ''elector-0'', ID := ''elector-0''\<rparr>)),
        Some Died)
   \<and> filter is_store_call
        (fst (Run test_os [\<lparr>session = strict_session, signal = None, pick = ErrChan\<rparr>]
                (NewElectorNode (Some zero_ttl_config)))) =
      [CallInClusterConfig, CallNewForConfig,
       CallResourcelockNew ''leases'' ''default'' ''example-election'' ''elector-0'',
       CallRunOrDie
         \<lparr>Lock = (''leases'', ''default'', ''example-election'', ''elector-0''),
          ElectionName = ''default/example-election-elector-0'', ReleaseOnCancel = True,
          LeaseDuration = 0, RenewDeadline = 0, RetryPeriod = 0\<rparr>]"
proof -
  let ?it = "\<lparr>session = strict_session, signal = None, pick = ErrChan\<rparr>"
  let ?node = "NewElectorNode (Some zero_ttl_config)"
  have h1: "config ?node = Some zero_ttl_config"
    by (simp add: NewElectorNode_def)
  have h2: "\<not> spec_durations_valid (electionConfig zero_ttl_config)"
    by (simp add: spec_durations_valid_def electionConfig_def zero_ttl_config_def
        duration_div_def)
  have h3: "\<And>cfg. \<not> spec_durations_valid cfg \<Longrightarrow> RunOrDie (session ?it) cfg = Panics []"
    by (simp add: strict_session_def strict_library_def)
  have run: "Run test_os [?it] ?node =
      (fst (Run test_os [?it] ?node),
       NewElectorNode (Some (zero_ttl_config\<lparr>PodName := ''elector-0'', ID := ''elector-0''\<rparr>)),
       Some Died)"
    and calls: "filter is_store_call (fst (Run test_os [?it] ?node)) =
      [CallInClusterConfig, CallNewForConfig,
       CallResourcelockNew ''leases'' ''default'' ''example-election'' ''elector-0'',
       CallRunOrDie
         \<lparr>Lock = (''leases'', ''default'', ''example-election'', ''elector-0''),
          ElectionName = ''default/example-election-elector-0'', ReleaseOnCancel = True,
          LeaseDuration = 0, RenewDeadline = 0, RetryPeriod = 0\<rparr>]"
    by (simp_all add: Run_def checkConfig_def serveHTTP_def NewElectorNode_def
        zero_ttl_config_def test_os_def strict_session_def strict_library_def
        spec_durations_valid_def run_def buildClientConfig_def electionConfig_def
        duration_div_def EnvPodName_def Let_def)
  have s: "snd (Run test_os [?it] ?node) =
      (NewElectorNode (Some (zero_ttl_config\<lparr>PodName := ''elector-0'', ID := ''elector-0''\<rparr>)),
       Some Died)"
    using arg_cong [OF run, of snd] by simp
  have lib: "RunOrDie (session ?it) (electionConfig zero_ttl_config) = Panics []"
    using h3 [OF h2] .
  show ?thesis
    using Run_invalid_durations [OF h1 h2 h3 run] h1 h2 lib s calls
    by simp
qed

text \<open>
  It is the library that stops the process: \<^verbatim>\<open>checkConfig\<close> itself returns the same
  verdict whatever the TTL.
\<close>

lemma checkConfig_ignores_TTL:
  "snd (snd (checkConfig os (node\<lparr>config := Some (c\<lparr>TTL := t\<rparr>)\<rparr>))) =
   snd (snd (checkConfig os (node\<lparr>config := Some c\<rparr>)))"
  by (simp add: checkConfig_def Let_def split: sum.splits)

subsection \<open>The default identity\<close>

text \<open>
  C7. When the ID is empty, the election name is not, and the operating system reports
  a hostname, \<^verbatim>\<open>checkConfig\<close> succeeds and the node's ID is that hostname afterwards
  (so it is non-empty whenever the hostname is); the rest of the configuration is
  unchanged but for the Pod name, which is \<^verbatim>\<open>ELECTOR_POD_NAME\<close> or else the hostname.
\<close>

theorem checkConfig_default_ID:
  assumes "config node = Some c"
    and "ID c = ''''"
    and "Name c \<noteq> ''''"
    and "Hostname os = Inr h"
  shows "snd (snd (checkConfig os node)) = None
         \<and> fst (snd (checkConfig os node)) =
             node\<lparr>config := Some (c\<lparr>PodName := (if Getenv os EnvPodName \<noteq> ''''
                                                  then Getenv os EnvPodName else h),
                                     ID := h\<rparr>)\<rparr>
         \<and> (h \<noteq> '''' \<longrightarrow>
              (\<exists>c'. config (fst (snd (checkConfig os node))) = Some c' \<and> ID c' \<noteq> ''''))"
  using assms by (simp add: checkConfig_def Let_def)

theorem checkConfig_default_ID_witness:
  "config (NewElectorNode (Some test_config)) = Some test_config
   \<and> ID test_config = ''''
   \<and> Name test_config \<noteq> ''''
   \<and> Hostname test_os = Inr ''elector-0''
   \<and> checkConfig test_os (NewElectorNode (Some test_config)) =
       ([Logged Info ''pod name not specified, using hostname: elector-0'',
         Logged Info ''no ID specified for elector node, using hostname: elector-0''],
        NewElectorNode (Some (test_config\<lparr>PodName := ''elector-0'', ID := ''elector-0''\<rparr>)),
        None)"
proof -
  have h1: "config (NewElectorNode (Some test_config)) = Some test_config"
    by (simp add: NewElectorNode_def)
  have h2: "ID test_config = ''''"
    by (simp add: test_config_def empty_config_def)
  have h3: "Name test_config \<noteq> ''''"
    by (simp add: test_config_def)
  have h4: "Hostname test_os = Inr ''elector-0''"
    by (simp add: test_os_def)
  have ev: "fst (checkConfig test_os (NewElectorNode (Some test_config))) =
       [Logged Info ''pod name not specified, using hostname: elector-0'',
        Logged Info ''no ID specified for elector node, using hostname: elector-0'']"
    by (simp add: checkConfig_def NewElectorNode_def test_config_def empty_config_def
        test_os_def Let_def)
  have g: "Getenv test_os EnvPodName = ''''"
    by (simp add: test_os_def)
  show ?thesis
    using checkConfig_default_ID [OF h1 h2 h3 h4] h1 h2 h3 h4 ev g
    by (cases "checkConfig test_os (NewElectorNode (Some test_config))")
      (simp add: NewElectorNode_def)
qed

text \<open>When the hostname cannot be read, \<^verbatim>\<open>checkConfig\<close> returns the error of the read.\<close>

lemma checkConfig_no_hostname:
  assumes "config node = Some c"
    and "Name c \<noteq> ''''"
    and "Hostname os = Inl err"
  shows "checkConfig os node = ([], node, Some err)"
  using assms by (simp add: checkConfig_def)

subsection \<open>Who writes the observed leader, and how it is read\<close>

lemma httpLeaderInfo_between_nothing:
  "httpLeaderInfo_between env req [] node =
     (fst (httpLeaderInfo env req node), node, snd (httpLeaderInfo env req node))"
  by (simp add: httpLeaderInfo_between_def httpLeaderInfo_def Let_def
      split: option.splits sum.splits)

text \<open>
  C8 (as amended). \<^verbatim>\<open>currentLeader\<close> is assigned by the callback \<^verbatim>\<open>OnNewLeader\<close> and by
  nothing else: the other two callbacks, the configuration check, the signal listener
  and the HTTP server leave it as it is. It is read and written as a plain field. The
  status handler reads it twice, and with callbacks running between the two reads it
  answers with the leader of the first read and with \<open>is_leader\<close> of the second; when no
  \<^verbatim>\<open>OnNewLeader\<close> runs between them, the answer is the status of the node as the handler
  found it.
\<close>

theorem currentLeader_written_and_read:
  "currentLeader (snd (callback_step c cb node)) =
     (case cb of OnNewLeader identity api \<Rightarrow> identity | _ \<Rightarrow> currentLeader node)
   \<and> currentLeader (fst (snd (checkConfig os node))) = currentLeader node
   \<and> currentLeader (snd (listenForSignal sig node)) = currentLeader node
   \<and> currentLeader (fst (snd (serveHTTP listen node))) = currentLeader node
   \<and> snd (snd (httpLeaderInfo_between env req cbs (node\<lparr>config := Some c\<rparr>))) =
       Returned \<lparr>StatusCode = 200,
                 Header = [(''Content-Type'', [''application/json''])],
                 Body = JSON [(''node'', JString (ID c)),
                              (''leader'', JString (currentLeader node)),
                              (''is_leader'',
                               JBool (ID c = currentLeader
                                  (snd (callbacks_run c cbs (node\<lparr>config := Some c\<rparr>))))),
                              (''timestamp'', JString (now_utc_rfc3339 env))]\<rparr>
   \<and> (filter is_OnNewLeader cbs = [] \<longrightarrow>
        snd (snd (httpLeaderInfo_between env req cbs (node\<lparr>config := Some c\<rparr>))) =
          Returned \<lparr>StatusCode = 200,
                    Header = [(''Content-Type'', [''application/json''])],
                    Body = JSON (status_snapshot (now_utc_rfc3339 env) c node)\<rparr>)"
proof -
  let ?node = "node\<lparr>config := Some c\<rparr>"
  obtain evc node' where run: "callbacks_run c cbs ?node = (evc, node')"
    by (cases "callbacks_run c cbs ?node")
  have cfg: "config node' = Some c"
    using callbacks_run_config [of c cbs ?node] run by simp
  have answer: "snd (snd (httpLeaderInfo_between env req cbs ?node)) =
       Returned \<lparr>StatusCode = 200,
                 Header = [(''Content-Type'', [''application/json''])],
                 Body = JSON [(''node'', JString (ID c)),
                              (''leader'', JString (currentLeader node)),
                              (''is_leader'', JBool (ID c = currentLeader node')),
                              (''timestamp'', JString (now_utc_rfc3339 env))]\<rparr>"
    using run cfg
    by (simp add: httpLeaderInfo_between_def json_Marshal_def IsLeader_def StatusOK_def
        Let_def)
  have same: "currentLeader node' = currentLeader node" if "filter is_OnNewLeader cbs = []"
    using callbacks_run_currentLeader [OF that, of c ?node] run by simp
  show ?thesis
    using answer same run
    by (simp add: callback_step_currentLeader checkConfig_currentLeader
        listenForSignal_currentLeader serveHTTP_currentLeader status_snapshot_def)
qed

text \<open>
  The theorem at a new node \<open>n1\<close>, with the callback \<^verbatim>\<open>OnStartedLeading\<close> running between
  the two reads of the handler.
\<close>

theorem currentLeader_written_and_read_witness:
  "filter is_OnNewLeader [OnStartedLeading quiet_pod] = []
   \<and> snd (snd (httpLeaderInfo_between test_http_env test_request [OnStartedLeading quiet_pod]
          (NewElectorNode (Some n1_config)))) =
       Returned \<lparr>StatusCode = 200,
                 Header = [(''Content-Type'', [''application/json''])],
                 Body = JSON [(''node'', JString ''n1''),
                              (''leader'', JString ''''),
                              (''is_leader'', JBool False),
                              (''timestamp'', JString ''2019-05-02T18:28:51Z'')]\<rparr>"
proof -
  have h: "filter is_OnNewLeader [OnStartedLeading quiet_pod] = []"
    by simp
  have n: "NewElectorNode (Some n1_config) = (NewElectorNode None)\<lparr>config := Some n1_config\<rparr>"
    by (simp add: NewElectorNode_def)
  have v: "status_snapshot (now_utc_rfc3339 test_http_env) n1_config (NewElectorNode None) =
      [(''node'', JString ''n1''), (''leader'', JString ''''), (''is_leader'', JBool False),
       (''timestamp'', JString ''2019-05-02T18:28:51Z'')]"
    by (simp add: status_snapshot_def n1_config_def empty_config_def NewElectorNode_def
        test_http_env_def)
  from currentLeader_written_and_read [of n1_config "OnStartedLeading quiet_pod"
        "NewElectorNode None" test_os "''terminated''" None test_http_env test_request
        "[OnStartedLeading quiet_pod]"]
  have t: "filter is_OnNewLeader [OnStartedLeading quiet_pod] = [] \<longrightarrow>
        snd (snd (httpLeaderInfo_between test_http_env test_request [OnStartedLeading quiet_pod]
                    ((NewElectorNode None)\<lparr>config := Some n1_config\<rparr>))) =
          Returned \<lparr>StatusCode = 200,
                    Header = [(''Content-Type'', [''application/json''])],
                    Body = JSON (status_snapshot (now_utc_rfc3339 test_http_env) n1_config
                                   (NewElectorNode None))\<rparr>"
    by blast
  show ?thesis
    using t h v by (simp add: n)
qed

text \<open>
  The claim as it was stated fails. A new node \<open>n1\<close> has observed no leader; the handler
  reads the empty leader; the election library then calls \<^verbatim>\<open>OnNewLeader\<close> with \<open>n1\<close>;
  and the handler's \<^verbatim>\<open>IsLeader()\<close> reads \<open>n1\<close>. The answer names no leader and says
  that the node leads, which is neither the status before the callback nor the one
  after it.
\<close>

theorem httpLeaderInfo_torn_counterexample:
  "snd (snd (httpLeaderInfo_between test_http_env test_request [OnNewLeader ''n1'' quiet_pod]
          (NewElectorNode (Some n1_config)))) =
     Returned \<lparr>StatusCode = 200,
               Header = [(''Content-Type'', [''application/json''])],
               Body = JSON [(''node'', JString ''n1''),
                            (''leader'', JString ''''),
                            (''is_leader'', JBool True),
                            (''timestamp'', JString ''2019-05-02T18:28:51Z'')]\<rparr>
   \<and> status_snapshot ''2019-05-02T18:28:51Z'' n1_config (NewElectorNode (Some n1_config)) =
       [(''node'', JString ''n1''), (''leader'', JString ''''), (''is_leader'', JBool False),
        (''timestamp'', JString ''2019-05-02T18:28:51Z'')]
   \<and> status_snapshot ''2019-05-02T18:28:51Z'' n1_config
        (fst (snd (httpLeaderInfo_between test_http_env test_request
                     [OnNewLeader ''n1'' quiet_pod] (NewElectorNode (Some n1_config))))) =
       [(''node'', JString ''n1''), (''leader'', JString ''n1''), (''is_leader'', JBool True),
        (''timestamp'', JString ''2019-05-02T18:28:51Z'')]"
  by (simp add: httpLeaderInfo_between_def json_Marshal_def IsLeader_def StatusOK_def
      status_snapshot_def NewElectorNode_def n1_config_def empty_config_def
      test_http_env_def test_request_def Let_def)


end
